theory Spec2Isabelle
  imports Main
begin

section \<open>Permission model (utils/permissions)\<close>

text \<open>
  A \<open>Permission\<close> is an object with a \<open>name\<close> and a \<open>level\<close>, a \<open>number\<close> that ranks
  it; levels are taken to be integers. The source tests membership with
  \<open>Array.prototype.includes\<close> against the entries of the catalogue \<open>Permissions\<close>; an
  object is identified here with its value (name and level), so \<open>includes\<close> is list
  membership.
\<close>

record permission =
  name :: string
  level :: int

text \<open>
  The catalogue \<open>Permissions\<close> lives in \<open>models/user.model\<close>; the functions below take the
  entries they name as a parameter.
\<close>

record permissions_catalog =
  P_ALL :: permission
  P_MANAGE_PERMISSIONS :: permission
  P_ADD_USER :: permission

text \<open>
  The structural argument types \<open>{ permissions: Permission[] }\<close> and
  \<open>{ bdeUUID: string, permissions: Permission[] }\<close>.
\<close>

record has_permissions =
  permissions :: "permission list"

record bde_member = has_permissions +
  bdeUUID :: string

definition array_includes :: "'a list \<Rightarrow> 'a \<Rightarrow> bool" where
  "array_includes xs x = (x \<in> set xs)"

text \<open>\<open>Math.max(0, ...user.permissions.map(p => p.level))\<close>\<close>

definition findPermissionLevel :: "'a has_permissions_scheme \<Rightarrow> int" where
  "findPermissionLevel user = fold max (map level (permissions user)) 0"

definition canManagePermissions ::
  "permissions_catalog \<Rightarrow> 'a bde_member_scheme \<Rightarrow> 'b bde_member_scheme \<Rightarrow> bool" where
  "canManagePermissions Permissions source target =
     (if array_includes (permissions source) (P_ALL Permissions)
         \<and> \<not> array_includes (permissions target) (P_ALL Permissions) then True
      else if \<not> array_includes (permissions source) (P_MANAGE_PERMISSIONS Permissions) then False
      else if bdeUUID source \<noteq> bdeUUID target then False
      else let sourceLevel = findPermissionLevel source;
               targetLevel = findPermissionLevel target
           in sourceLevel > targetLevel)"

definition canAddUser :: "permissions_catalog \<Rightarrow> 'a bde_member_scheme \<Rightarrow> string \<Rightarrow> bool" where
  "canAddUser Permissions source bde =
     (if array_includes (permissions source) (P_ALL Permissions) then True
      else if \<not> array_includes (permissions source) (P_ADD_USER Permissions) then False
      else bdeUUID source = bde)"

subsection \<open>Concrete values used in the examples\<close>

definition catalog0 :: permissions_catalog where
  "catalog0 = \<lparr> P_ALL = \<lparr> name = ''ALL'', level = 100 \<rparr>,
                P_MANAGE_PERMISSIONS = \<lparr> name = ''MANAGE_PERMISSIONS'', level = 10 \<rparr>,
                P_ADD_USER = \<lparr> name = ''ADD_USER'', level = 1 \<rparr> \<rparr>"

definition member0 :: "string \<Rightarrow> permission list \<Rightarrow> bde_member" where
  "member0 bde ps = \<lparr> permissions = ps, bdeUUID = bde \<rparr>"

section \<open>Data model of the controllers\<close>

text \<open>
  A luxon \<open>DateTime\<close> is compared through its \<open>valueOf\<close>, the instant in epoch
  milliseconds; an optional field (\<open>undefined\<close> when absent) is an \<open>option\<close>.
\<close>

type_synonym DateTime = int

record event =
  eventUUID :: string
  bdeUUID :: string
  eventName :: string
  isDraft :: bool
  bookingStart :: "DateTime option"
  bookingEnd :: "DateTime option"
  eventDate :: "DateTime option"

record booking =
  eventUUID :: string
  userUUID :: string

text \<open>The element type \<open>Booking & Event\<close> of the booking lists.\<close>

record booking_event = event +
  userUUID :: string

text \<open>The second argument \<open>{ userUUID, bdeUUID }\<close> of \<open>canManageBooking\<close>.\<close>

record booking_target =
  userUUID :: string
  bdeUUID :: string

record jwt_claims =
  uuid :: string
  bde_uuid :: string
  firstname :: string
  lastname :: string
  iat :: int

text \<open>A request body is \<open>object | null\<close>: an object maps keys to JSON values.\<close>

datatype json =
  JNull | JBool bool | JNumber int | JString string | JArray "json list"
  | JObject "(string \<times> json) list"

type_synonym json_object = "string \<rightharpoonup> json"

text \<open>The values a validator hands back in \<open>result.value\<close>.\<close>

record event_body_request =
  name :: string
  bde :: string
  isDraft :: bool
  bookingStart :: "string option"
  bookingEnd :: "string option"
  eventDate :: "string option"

record booking_body_request =
  user :: string
  event :: string
  force :: "bool option"

text \<open>
  What a service call rejects with, by the \<open>type\<close> the controllers test; the last
  constructor of each stands for every other thrown value.
\<close>

datatype EventsErrorType = EVENT_NOT_EXISTS | BDE_UUID_NOT_EXISTS | EVENTS_FAILURE

datatype BookingsErrorType =
  EVENT_NOT_EXISTS | USER_NOT_EXISTS | BOOKING_ALREADY_EXISTS | BOOKING_NOT_EXISTS
  | BOOKINGS_FAILURE

datatype thrown = EventsError EventsErrorType | BookingsError BookingsErrorType

text \<open>
  The collaborators of the controllers, none of which is among the sources: the token
  service, the events and bookings services, the two predicates imported from
  \<open>utils/permissions\<close>, the two validators built with \<open>ValidatorBuilder\<close>, and the library
  calls \<open>DateTime.fromISO\<close>, \<open>DateTime.local()\<close> and \<open>uuid()\<close>. A controller action calls
  each of them at most once with given arguments, so each is the function from the
  arguments to the outcome of that call; a rejected promise is \<open>None\<close> or \<open>Inl\<close>.
\<close>

record world =
  verifyToken :: "string \<Rightarrow> jwt_claims option"
  canManageEvents :: "jwt_claims \<Rightarrow> string \<Rightarrow> bool"
  canManageBooking :: "jwt_claims \<Rightarrow> booking_target \<Rightarrow> bool"
  EVENT_VALIDATOR :: "json_object option \<Rightarrow> string + event_body_request"
  BOOKING_VALIDATOR :: "json_object option \<Rightarrow> string + booking_body_request"
  fromISO :: "string \<Rightarrow> DateTime"
  DateTime_local :: DateTime
  uuid_v4 :: string
  events_findByUUID :: "string \<Rightarrow> EventsErrorType + event"
  events_findAll :: "EventsErrorType + event list"
  events_create :: "event \<Rightarrow> EventsErrorType + event"
  events_update :: "event \<Rightarrow> EventsErrorType + event"
  bookings_create :: "booking \<Rightarrow> BookingsErrorType + booking"
  bookings_findBookingsForUser :: "string \<Rightarrow> BookingsErrorType + booking_event list"
  bookings_findBookingsForEvent :: "string \<Rightarrow> BookingsErrorType + booking_event list"

text \<open>
  The calls a controller action makes, in order: the service calls, the reading of the
  clock and the logging of an error.
\<close>

datatype call =
  VerifyToken string
  | EventsFindByUUID string
  | EventsFindAll
  | EventsCreate event
  | EventsUpdate event
  | BookingsCreate booking
  | BookingsFindForUser string
  | BookingsFindForEvent string
  | DateTimeLocal
  | LoggingError thrown

datatype content =
  Message string
  | EventOut event
  | EventsOut "event list"
  | BookingOut booking
  | BookingsOut "booking_event list"

record response =
  status :: nat
  content :: content

text \<open>
  Modelled from the spec: the response constructors of \<open>utils/http-code\<close>, which is not
  among the sources. Each carries a status code and a body or message; the codes are
  those the spec gives for each outcome.
\<close>

definition ok :: "content \<Rightarrow> response" where
  "ok c = \<lparr> status = 200, content = c \<rparr>"

definition created :: "content \<Rightarrow> response" where
  "created c = \<lparr> status = 201, content = c \<rparr>"

definition badRequest :: "string \<Rightarrow> response" where
  "badRequest msg = \<lparr> status = 400, content = Message msg \<rparr>"

definition unauthorized :: "string \<Rightarrow> response" where
  "unauthorized msg = \<lparr> status = 401, content = Message msg \<rparr>"

definition forbidden :: "string \<Rightarrow> response" where
  "forbidden msg = \<lparr> status = 403, content = Message msg \<rparr>"

definition notFound :: "string \<Rightarrow> response" where
  "notFound msg = \<lparr> status = 404, content = Message msg \<rparr>"

definition internalServerError :: "string \<Rightarrow> response" where
  "internalServerError msg = \<lparr> status = 500, content = Message msg \<rparr>"

text \<open>\<open>!token\<close> for \<open>token?: string\<close>: absent or the empty string.\<close>

definition no_token :: "string option \<Rightarrow> bool" where
  "no_token token = (case token of None \<Rightarrow> True | Some t \<Rightarrow> t = [])"

text \<open>Truthiness of an optional string and of an optional boolean.\<close>

definition truthy_string :: "string option \<Rightarrow> bool" where
  "truthy_string s = (case s of None \<Rightarrow> False | Some t \<Rightarrow> t \<noteq> [])"

definition truthy_bool :: "bool option \<Rightarrow> bool" where
  "truthy_bool b = (case b of None \<Rightarrow> False | Some v \<Rightarrow> v)"

section \<open>Bookings controller\<close>

text \<open>\<open>canBookNow\<close> reads the clock itself; the instant read is the argument \<open>now\<close>.\<close>

definition canBookNow :: "DateTime \<Rightarrow> 'a event_scheme \<Rightarrow> bool" where
  "canBookNow now ev =
     (if (case event.bookingStart ev of None \<Rightarrow> False | Some start \<Rightarrow> start > now) then False
      else if (case event.bookingEnd ev of None \<Rightarrow> False | Some end \<Rightarrow> end < now) then False
      else True)"

text \<open>The body of \<open>create\<close> after \<open>{ ...(body || {}), user: userUUID, event: eventUUID }\<close>.\<close>

definition merge_body :: "json_object option \<Rightarrow> string \<Rightarrow> string \<Rightarrow> json_object option" where
  "merge_body body user_uuid event_uuid =
     Some ((case body of None \<Rightarrow> Map.empty | Some b \<Rightarrow> b)
             (''user'' \<mapsto> JString user_uuid, ''event'' \<mapsto> JString event_uuid))"

definition BookingsController_create ::
  "world \<Rightarrow> string \<Rightarrow> string \<Rightarrow> json_object option \<Rightarrow> string option \<Rightarrow> call list \<times> response" where
  "BookingsController_create W event_uuid user_uuid body token =
     (let body' = merge_body body user_uuid event_uuid in
      if no_token token then ([], unauthorized ''You must authenticate.'')
      else let t = the token; c1 = [VerifyToken t] in
        case verifyToken W t of
          None \<Rightarrow> (c1, unauthorized ''The given token is invalid.'')
        | Some jwtClaims \<Rightarrow>
           (case BOOKING_VALIDATOR W body' of
              Inl msg \<Rightarrow> (c1, badRequest msg)
            | Inr v \<Rightarrow>
               let b = \<lparr> booking.eventUUID = event v, booking.userUUID = user v \<rparr>;
                   c2 = c1 @ [EventsFindByUUID (booking.eventUUID b)] in
               (case events_findByUUID W (booking.eventUUID b) of
                  Inl e \<Rightarrow>
                    if e = EventsErrorType.EVENT_NOT_EXISTS
                    then (c2, badRequest ''Invalid event UUID specified.'')
                    else (c2 @ [LoggingError (EventsError e)],
                          internalServerError
                            ''Unable to create booking. Contact an adminstrator or retry later.'')
                | Inr ev \<Rightarrow>
                    if \<not> canManageBooking W jwtClaims
                          \<lparr> booking_target.userUUID = booking.userUUID b,
                            booking_target.bdeUUID = event.bdeUUID ev \<rparr>
                    then (c2, forbidden ''You do not have the permission to create this booking.'')
                    else if truthy_bool (force v) \<and> \<not> canManageEvents W jwtClaims (event.bdeUUID ev)
                    then (c2, forbidden ''You do not have permission to force booking.'')
                    else if \<not> truthy_bool (force v) \<and> \<not> canBookNow (DateTime_local W) ev
                    then (c2 @ [DateTimeLocal],
                          forbidden ''It is not possible to book this event now.'')
                    else
                      let c3 = (if truthy_bool (force v) then c2 else c2 @ [DateTimeLocal])
                                 @ [BookingsCreate b] in
                      (case bookings_create W b of
                         Inr b' \<Rightarrow> (c3, created (BookingOut b'))
                       | Inl e \<Rightarrow>
                           if e = BookingsErrorType.EVENT_NOT_EXISTS
                           then (c3, badRequest ''Specified bde UUID is invalid.'')
                           else if e = USER_NOT_EXISTS
                           then (c3, badRequest ''Specified user UUID is invalid.'')
                           else if e = BOOKING_ALREADY_EXISTS
                           then (c3, badRequest ''This booking already exists.'')
                           else (c3 @ [LoggingError (BookingsError e)],
                                 internalServerError
                                   ''Unable to create booking. Contact an adminstrator or retry later.'')))))"

definition BookingsController_findUserBookings ::
  "world \<Rightarrow> string \<Rightarrow> string option \<Rightarrow> call list \<times> response" where
  "BookingsController_findUserBookings W user_uuid token =
     (if no_token token then ([], unauthorized ''You must authenticate.'')
      else let t = the token; c1 = [VerifyToken t] in
        case verifyToken W t of
          None \<Rightarrow> (c1, unauthorized ''The given token is invalid.'')
        | Some jwtClaims \<Rightarrow>
           let c2 = c1 @ [BookingsFindForUser user_uuid] in
           (case bookings_findBookingsForUser W user_uuid of
              Inl e \<Rightarrow> (c2 @ [LoggingError (BookingsError e)],
                        internalServerError
                          ''Unable to fecth booking. Contact an adminstrator or retry later.'')
            | Inr bs \<Rightarrow>
                (c2, ok (BookingsOut
                   (filter (\<lambda>b. canManageBooking W jwtClaims
                                   \<lparr> booking_target.userUUID = booking_event.userUUID b,
                                     booking_target.bdeUUID = event.bdeUUID b \<rparr>) bs)))))"

definition BookingsController_findEventBookings ::
  "world \<Rightarrow> string \<Rightarrow> string option \<Rightarrow> call list \<times> response" where
  "BookingsController_findEventBookings W event_uuid token =
     (if no_token token then ([], unauthorized ''You must authenticate.'')
      else let t = the token; c1 = [VerifyToken t] in
        case verifyToken W t of
          None \<Rightarrow> (c1, unauthorized ''The given token is invalid.'')
        | Some jwtClaims \<Rightarrow>
           let c2 = c1 @ [BookingsFindForEvent event_uuid] in
           (case bookings_findBookingsForEvent W event_uuid of
              Inl e \<Rightarrow> (c2 @ [LoggingError (BookingsError e)],
                        internalServerError
                          ''Unable to fecth bookings. Contact an adminstrator or retry later.'')
            | Inr bs \<Rightarrow> (c2, ok (BookingsOut bs))))"

section \<open>Events controller\<close>

definition assignDates :: "world \<Rightarrow> event \<Rightarrow> event_body_request \<Rightarrow> event" where
  "assignDates W ev eventData =
     (let e1 = (if truthy_string (event_body_request.bookingStart eventData)
                then ev\<lparr> event.bookingStart :=
                          Some (fromISO W (the (event_body_request.bookingStart eventData))) \<rparr>
                else ev);
          e2 = (if truthy_string (event_body_request.bookingEnd eventData)
                then e1\<lparr> event.bookingEnd :=
                          Some (fromISO W (the (event_body_request.bookingEnd eventData))) \<rparr>
                else e1)
      in if truthy_string (event_body_request.eventDate eventData)
         then e2\<lparr> event.eventDate :=
                   Some (fromISO W (the (event_body_request.eventDate eventData))) \<rparr>
         else e2)"

definition areBookingDatesWellOrdered :: "event \<Rightarrow> bool" where
  "areBookingDatesWellOrdered ev =
     (event.bookingStart ev = None \<or> event.bookingEnd ev = None
      \<or> the (event.bookingStart ev) < the (event.bookingEnd ev))"

text \<open>The event literal that \<open>create\<close> and \<open>patchEvent\<close> build from the validated body.\<close>

definition new_event :: "string \<Rightarrow> event_body_request \<Rightarrow> event" where
  "new_event event_uuid v =
     \<lparr> event.eventUUID = event_uuid, event.bdeUUID = bde v, eventName = name v,
       event.isDraft = event_body_request.isDraft v,
       event.bookingStart = None, event.bookingEnd = None, event.eventDate = None \<rparr>"

definition EventsController_create ::
  "world \<Rightarrow> json_object option \<Rightarrow> string option \<Rightarrow> call list \<times> response" where
  "EventsController_create W body token =
     (if no_token token then ([], unauthorized ''You must be connected.'')
      else let t = the token; c1 = [VerifyToken t] in
        case verifyToken W t of
          None \<Rightarrow> (c1, unauthorized ''The given token is invalid.'')
        | Some claims \<Rightarrow>
           (case EVENT_VALIDATOR W body of
              Inl msg \<Rightarrow> (c1, badRequest msg)
            | Inr v \<Rightarrow>
               let ev = assignDates W (new_event (uuid_v4 W) v) v in
               if \<not> areBookingDatesWellOrdered ev
               then (c1, badRequest
                      ''Booking end date must come (strictly) after booking beginning date.'')
               else if \<not> canManageEvents W claims (bde v)
               then (c1, forbidden ''You do not have the permission to create this event.'')
               else
                 let c2 = c1 @ [EventsCreate ev] in
                 (case events_create W ev of
                    Inr ev' \<Rightarrow> (c2, created (EventOut ev'))
                  | Inl e \<Rightarrow>
                      if e = BDE_UUID_NOT_EXISTS
                      then (c2, badRequest ''Given bde UUID does not exist.'')
                      else (c2 @ [LoggingError (EventsError e)],
                            internalServerError
                              ''Unable to create an event. Contact an administrator or retry later.''))))"

definition EventsController_patchEvent ::
  "world \<Rightarrow> string \<Rightarrow> json_object option \<Rightarrow> string option \<Rightarrow> call list \<times> response" where
  "EventsController_patchEvent W event_uuid body token =
     (if no_token token then ([], unauthorized ''You must be connected.'')
      else let t = the token; c1 = [VerifyToken t] in
        case verifyToken W t of
          None \<Rightarrow> (c1, unauthorized ''The given token is invalid.'')
        | Some claims \<Rightarrow>
           (case EVENT_VALIDATOR W body of
              Inl msg \<Rightarrow> (c1, badRequest msg)
            | Inr v \<Rightarrow>
               let ev = assignDates W (new_event event_uuid v) v in
               if \<not> areBookingDatesWellOrdered ev
               then (c1, badRequest ''bookingEnd date must come (strictly) after bookingStart date.'')
               else
                 let c2 = c1 @ [EventsFindByUUID (event.eventUUID ev)] in
                 (case events_findByUUID W (event.eventUUID ev) of
                    Inl e \<Rightarrow>
                      if e = EventsErrorType.EVENT_NOT_EXISTS
                      then (c2, notFound (''No event with uuid '' @ event.eventUUID ev @ '' exists.''))
                      else (c2 @ [LoggingError (EventsError e)],
                            internalServerError
                              ''Unable to patch the event. Please contact and adminstrator or retry later.'')
                  | Inr fetchedEvent \<Rightarrow>
                      if event.bdeUUID ev \<noteq> event.bdeUUID fetchedEvent
                         \<and> \<not> canManageEvents W claims (event.bdeUUID ev)
                      then (c2, forbidden ''You do not have the permission to patch this event.'')
                      else if \<not> canManageEvents W claims (event.bdeUUID fetchedEvent)
                      then (c2, forbidden ''You do not have the permission to patch this event.'')
                      else
                        let c3 = c2 @ [EventsUpdate ev] in
                        (case events_update W ev of
                           Inr ev' \<Rightarrow> (c3, ok (EventOut ev'))
                         | Inl e \<Rightarrow>
                             if e = EventsErrorType.EVENT_NOT_EXISTS
                             then (c3, notFound
                                    (''No event with uuid '' @ event.eventUUID ev @ '' exists.''))
                             else if e = BDE_UUID_NOT_EXISTS
                             then (c3, badRequest
                                    (''No BDE with UUID '' @ event.bdeUUID ev @ '' exists.''))
                             else (c3 @ [LoggingError (EventsError e)],
                                   internalServerError
                                     ''Unable to patch event. Contact an administrator or retry later.'')))))"

definition EventsController_findAll :: "world \<Rightarrow> string option \<Rightarrow> call list \<times> response" where
  "EventsController_findAll W token =
     (let c1 = [EventsFindAll] in
      case events_findAll W of
        Inl e \<Rightarrow> (c1 @ [LoggingError (EventsError e)],
                  internalServerError ''Unable to list events.'')
      | Inr events \<Rightarrow>
          let jwtClaims = (if \<not> no_token token then verifyToken W (the token) else None);
              c2 = (if \<not> no_token token then c1 @ [VerifyToken (the token)] else c1);
              filteredEvents =
                filter (\<lambda>ev. \<not> event.isDraft ev
                          \<or> (case jwtClaims of None \<Rightarrow> False
                              | Some c \<Rightarrow> canManageEvents W c (event.bdeUUID ev))) events
          in (c2, ok (EventsOut filteredEvents)))"

section \<open>Notions the properties are stated with\<close>

text \<open>
  The caller is authenticated when a token is given and the token service accepts it; the
  claims are then those the service decodes.
\<close>

definition authenticated :: "world \<Rightarrow> string option \<Rightarrow> jwt_claims option" where
  "authenticated W token = (case token of None \<Rightarrow> None
                            | Some t \<Rightarrow> if t = [] then None else verifyToken W t)"

text \<open>Both booking dates, when given, are in strict order.\<close>

definition booking_window_ordered :: "event \<Rightarrow> bool" where
  "booking_window_ordered ev =
     (case (event.bookingStart ev, event.bookingEnd ev) of
        (Some start, Some end) \<Rightarrow> start < end
      | _ \<Rightarrow> True)"

section \<open>Example collaborators\<close>

text \<open>
  A small world on which the controllers are evaluated: two callers, an administrator of
  \<open>bde-1\<close> and a plain user; one public event and one draft whose booking window opens
  after the clock's instant; two bookings of the public event by different users.
\<close>

definition admin0 :: jwt_claims where
  "admin0 = \<lparr> uuid = ''u-admin'', bde_uuid = ''bde-1'', firstname = ''Ada'',
               lastname = ''Admin'', iat = 0 \<rparr>"

definition user0 :: jwt_claims where
  "user0 = \<lparr> uuid = ''u-1'', bde_uuid = ''bde-1'', firstname = ''Una'',
              lastname = ''User'', iat = 0 \<rparr>"

definition public0 :: event where
  "public0 = \<lparr> event.eventUUID = ''e-1'', event.bdeUUID = ''bde-1'', eventName = ''gala'',
                event.isDraft = False, event.bookingStart = None, event.bookingEnd = None,
                event.eventDate = None \<rparr>"

definition draft0 :: event where
  "draft0 = \<lparr> event.eventUUID = ''e-2'', event.bdeUUID = ''bde-1'', eventName = ''trip'',
               event.isDraft = True, event.bookingStart = Some 9000, event.bookingEnd = None,
               event.eventDate = None \<rparr>"

definition booked0 :: "string \<Rightarrow> booking_event" where
  "booked0 u = \<lparr> event.eventUUID = ''e-1'', event.bdeUUID = ''bde-1'', eventName = ''gala'',
                  event.isDraft = False, event.bookingStart = None, event.bookingEnd = None,
                  event.eventDate = None, booking_event.userUUID = u \<rparr>"

definition json_string :: "json option \<Rightarrow> string option" where
  "json_string j = (case j of Some (JString s) \<Rightarrow> Some s | _ \<Rightarrow> None)"

definition json_bool :: "json option \<Rightarrow> bool option" where
  "json_bool j = (case j of Some (JBool b) \<Rightarrow> Some b | _ \<Rightarrow> None)"

definition event_validator0 :: "json_object option \<Rightarrow> string + event_body_request" where
  "event_validator0 body =
     (case body of
        None \<Rightarrow> Inl ''a body is required''
      | Some m \<Rightarrow>
          (case (json_string (m ''name''), json_string (m ''bde''), json_bool (m ''isDraft'')) of
             (Some n, Some b, Some d) \<Rightarrow>
               Inr \<lparr> name = n, bde = b, event_body_request.isDraft = d,
                     event_body_request.bookingStart = json_string (m ''bookingStart''),
                     event_body_request.bookingEnd = json_string (m ''bookingEnd''),
                     event_body_request.eventDate = json_string (m ''eventDate'') \<rparr>
           | _ \<Rightarrow> Inl ''invalid body''))"

definition booking_validator0 :: "json_object option \<Rightarrow> string + booking_body_request" where
  "booking_validator0 body =
     (case body of
        None \<Rightarrow> Inl ''a body is required''
      | Some m \<Rightarrow>
          (case (json_string (m ''user''), json_string (m ''event'')) of
             (Some u, Some e) \<Rightarrow> Inr \<lparr> user = u, event = e, force = json_bool (m ''force'') \<rparr>
           | _ \<Rightarrow> Inl ''invalid body''))"

definition world0 :: world where
  "world0 =
     \<lparr> verifyToken = (\<lambda>t. if t = ''token-admin'' then Some admin0
                           else if t = ''token-user'' then Some user0 else None),
       canManageEvents = (\<lambda>c b. uuid c = ''u-admin'' \<and> b = bde_uuid c),
       canManageBooking = (\<lambda>c tg. uuid c = booking_target.userUUID tg
                                  \<or> (uuid c = ''u-admin'' \<and> booking_target.bdeUUID tg = bde_uuid c)),
       EVENT_VALIDATOR = event_validator0,
       BOOKING_VALIDATOR = booking_validator0,
       fromISO = (\<lambda>s. if s = ''1970-01-01T00:00:01Z'' then 1000
                       else if s = ''1970-01-01T00:00:02Z'' then 2000 else 0),
       DateTime_local = 5000,
       uuid_v4 = ''e-3'',
       events_findByUUID = (\<lambda>i. if i = ''e-1'' then Inr public0
                                 else if i = ''e-2'' then Inr draft0
                                 else Inl EventsErrorType.EVENT_NOT_EXISTS),
       events_findAll = Inr [public0, draft0],
       events_create = Inr,
       events_update = Inr,
       bookings_create = Inr,
       bookings_findBookingsForUser = (\<lambda>u. Inr [booked0 u]),
       bookings_findBookingsForEvent = (\<lambda>i. Inr [booked0 ''u-1'', booked0 ''u-2'']) \<rparr>"

definition event_body0 :: "string \<Rightarrow> string \<Rightarrow> string \<Rightarrow> json_object option" where
  "event_body0 b start end =
     Some [''name'' \<mapsto> JString ''gala'', ''bde'' \<mapsto> JString b, ''isDraft'' \<mapsto> JBool False,
           ''bookingStart'' \<mapsto> JString start, ''bookingEnd'' \<mapsto> JString end]"

text \<open>The same world with an administrator who manages the events of every BDE.\<close>

definition world1 :: world where
  "world1 = world0 \<lparr> canManageEvents := (\<lambda>c b. uuid c = ''u-admin'') \<rparr>"

section \<open>Permission levels\<close>

lemma array_includes_set: "array_includes xs x \<longleftrightarrow> x \<in> set xs"
  by (simp add: array_includes_def)

lemma fold_max_Max: "fold max xs (a::int) = Max (insert a (set xs))"
  using Max.set_eq_fold [of a xs] by simp

lemma findPermissionLevel_Max:
  "findPermissionLevel holder = Max (insert 0 (level ` set (permissions holder)))"
  by (simp add: findPermissionLevel_def fold_max_Max)

lemma findPermissionLevel_nonneg: "0 \<le> findPermissionLevel holder"
  by (simp add: findPermissionLevel_Max)

lemma findPermissionLevel_ge: "p \<in> set (permissions holder) \<Longrightarrow> level p \<le> findPermissionLevel holder"
  by (simp add: findPermissionLevel_Max)

lemma findPermissionLevel_le:
  assumes "0 \<le> b" and "\<forall>p \<in> set (permissions holder). level p \<le> b"
  shows "findPermissionLevel holder \<le> b"
  using assms by (simp add: findPermissionLevel_Max)

text \<open>
  C4, as stated: the result is the maximum level among the permissions. It is not when every
  level is negative: \<open>Math.max\<close> is given \<open>0\<close> as its first argument, so a holder whose only
  permission has level \<open>-3\<close> gets \<open>0\<close>, while the maximum of its levels is \<open>-3\<close>.
\<close>

theorem C4_max_level_counterexample:
  "findPermissionLevel \<lparr> permissions = [\<lparr> permission.name = ''X'', level = -3 \<rparr>] \<rparr> = 0
   \<and> Max (level ` set (permissions \<lparr> permissions = [\<lparr> permission.name = ''X'', level = -3 \<rparr>] \<rparr>)) = -3"
  by (simp add: findPermissionLevel_def)

text \<open>
  C4, amended: \<open>findPermissionLevel\<close> returns the maximum of \<open>0\<close> and the levels of the
  entity's permissions. Hence it is \<open>0\<close> when there are none, it is never negative, and it is
  the maximum level among the permissions as soon as one of them has a non-negative level.
  The function is total: it returns on every list.
\<close>

theorem C4_findPermissionLevel:
  "findPermissionLevel holder = Max (insert 0 (level ` set (permissions holder)))
   \<and> 0 \<le> findPermissionLevel holder
   \<and> (permissions holder = [] \<longrightarrow> findPermissionLevel holder = 0)
   \<and> ((\<exists>p \<in> set (permissions holder). 0 \<le> level p) \<longrightarrow>
        findPermissionLevel holder = Max (level ` set (permissions holder)))"
proof -
  have eq: "findPermissionLevel holder = Max (insert 0 (level ` set (permissions holder)))"
    by (rule findPermissionLevel_Max)
  have empty: "permissions holder = [] \<longrightarrow> findPermissionLevel holder = 0"
    by (simp add: findPermissionLevel_def)
  have some: "findPermissionLevel holder = Max (level ` set (permissions holder))"
    if "\<exists>p \<in> set (permissions holder). 0 \<le> level p"
  proof -
    let ?L = "level ` set (permissions holder)"
    from that obtain p where p: "p \<in> set (permissions holder)" "0 \<le> level p" by blast
    have fin: "finite ?L" and ne: "?L \<noteq> {}" using p by auto
    have "level p \<le> Max ?L" using p fin by simp
    with p have "0 \<le> Max ?L" by linarith
    moreover have "Max (insert 0 ?L) = max 0 (Max ?L)" using fin ne by simp
    ultimately show ?thesis using eq by simp
  qed
  show ?thesis using eq empty some findPermissionLevel_nonneg by blast
qed

theorem C4_findPermissionLevel_witness:
  "findPermissionLevel \<lparr> permissions = [\<lparr> permission.name = ''A'', level = 3 \<rparr>, \<lparr> permission.name = ''B'', level = 7 \<rparr>] \<rparr> = 7
   \<and> findPermissionLevel \<lparr> permissions = [] \<rparr> = 0
   \<and> (\<exists>p \<in> set [\<lparr> permission.name = ''A'', level = 3 \<rparr>, \<lparr> permission.name = ''B'', level = 7 \<rparr>]. 0 \<le> level p)"
  using C4_findPermissionLevel
          [of "\<lparr> permissions = [\<lparr> permission.name = ''A'', level = 3 \<rparr>, \<lparr> permission.name = ''B'', level = 7 \<rparr>] \<rparr>"]
        C4_findPermissionLevel [of "\<lparr> permissions = [] \<rparr>"]
  by simp

section \<open>Managing permissions\<close>

lemma canManagePermissions_bypass:
  assumes "array_includes (permissions source) (P_ALL Permissions)"
    and "\<not> array_includes (permissions target) (P_ALL Permissions)"
  shows "canManagePermissions Permissions source target"
  using assms by (simp add: canManagePermissions_def)

lemma canManagePermissions_no_bypass:
  assumes "\<not> (array_includes (permissions source) (P_ALL Permissions)
               \<and> \<not> array_includes (permissions target) (P_ALL Permissions))"
  shows "canManagePermissions Permissions source target \<longleftrightarrow>
           array_includes (permissions source) (P_MANAGE_PERMISSIONS Permissions)
           \<and> bde_member.bdeUUID source = bde_member.bdeUUID target
           \<and> findPermissionLevel source > findPermissionLevel target"
  using assms by (auto simp add: canManagePermissions_def Let_def)

text \<open>
  A target holding \<open>ALL\<close> is out of reach of every source none of whose permissions has a
  level above that of \<open>ALL\<close>: the bypass is off, and the source's level cannot exceed the
  target's.
\<close>

lemma canManagePermissions_ALL_protected:
  assumes inT: "array_includes (permissions target) (P_ALL Permissions)"
    and below: "\<forall>p \<in> set (permissions source). level p \<le> level (P_ALL Permissions)"
  shows "\<not> canManagePermissions Permissions source target"
proof -
  have "P_ALL Permissions \<in> set (permissions target)"
    using inT by (simp add: array_includes_set)
  then have t: "level (P_ALL Permissions) \<le> findPermissionLevel target"
    by (rule findPermissionLevel_ge)
  have "findPermissionLevel source \<le> findPermissionLevel target"
  proof (rule findPermissionLevel_le)
    show "0 \<le> findPermissionLevel target" by (rule findPermissionLevel_nonneg)
    show "\<forall>p \<in> set (permissions source). level p \<le> findPermissionLevel target"
      using below t by fastforce
  qed
  then show ?thesis
    using inT by (simp add: canManagePermissions_no_bypass)
qed

text \<open>
  The protection rests on the levels alone. Whatever the catalogue, a source holding \<open>ALL\<close>
  and \<open>MANAGE_PERMISSIONS\<close> that also carries one permission of a level above that of
  \<open>ALL\<close> passes the ordinary checks against a target of its BDE holding \<open>ALL\<close>.
\<close>

lemma canManagePermissions_both_ALL:
  "canManagePermissions Permissions
     (member0 b [P_ALL Permissions, P_MANAGE_PERMISSIONS Permissions,
                 \<lparr> permission.name = n, level = findPermissionLevel (member0 b [P_ALL Permissions]) + 1 \<rparr>])
     (member0 b [P_ALL Permissions])"
  by (auto simp add: canManagePermissions_def findPermissionLevel_def array_includes_def
      member0_def Let_def max_def)


text \<open>
  C2, as stated: the result is false for every source and target of different BDEs. The
  \<open>ALL\<close> bypass is tested before the BDEs are compared: a source holding \<open>ALL\<close> manages a
  target of another BDE that does not hold it.
\<close>

theorem C2_other_BDE_counterexample:
  "bde_member.bdeUUID (member0 ''bde-1'' [P_ALL catalog0]) \<noteq> bde_member.bdeUUID (member0 ''bde-2'' [])
   \<and> canManagePermissions catalog0 (member0 ''bde-1'' [P_ALL catalog0]) (member0 ''bde-2'' [])"
  by (simp add: canManagePermissions_def array_includes_def member0_def catalog0_def)

text \<open>
  C2, amended: for every source and target whose \<open>bde_member.bdeUUID\<close> fields differ and for which the
  \<open>ALL\<close> bypass does not apply (it is not the case that the source holds \<open>ALL\<close> and the
  target does not), \<open>canManagePermissions(source, target)\<close> returns false, even when the
  source's level is strictly greater than the target's.
\<close>

theorem C2_other_BDE_denied:
  assumes "bde_member.bdeUUID source \<noteq> bde_member.bdeUUID target"
    and "\<not> (array_includes (permissions source) (P_ALL Permissions)
            \<and> \<not> array_includes (permissions target) (P_ALL Permissions))"
  shows "\<not> canManagePermissions Permissions source target"
  using assms by (simp add: canManagePermissions_no_bypass)

theorem C2_other_BDE_denied_witness:
  "bde_member.bdeUUID (member0 ''bde-1'' [P_MANAGE_PERMISSIONS catalog0]) \<noteq> bde_member.bdeUUID (member0 ''bde-2'' [])
   \<and> findPermissionLevel (member0 ''bde-1'' [P_MANAGE_PERMISSIONS catalog0])
       > findPermissionLevel (member0 ''bde-2'' [])
   \<and> \<not> canManagePermissions catalog0
         (member0 ''bde-1'' [P_MANAGE_PERMISSIONS catalog0]) (member0 ''bde-2'' [])"
  using C2_other_BDE_denied
          [of "member0 ''bde-1'' [P_MANAGE_PERMISSIONS catalog0]" "member0 ''bde-2'' []" catalog0]
  by (simp add: array_includes_def findPermissionLevel_def member0_def catalog0_def)

text \<open>
  C3: for a source holding \<open>MANAGE_PERMISSIONS\<close> and a target of the same BDE, when the
  \<open>ALL\<close> bypass does not apply, \<open>canManagePermissions(source, target)\<close> is true if and only
  if the source's level is strictly greater than the target's; it is false when the two
  levels are equal.
\<close>

theorem C3_strict_hierarchy:
  assumes "array_includes (permissions source) (P_MANAGE_PERMISSIONS Permissions)"
    and "bde_member.bdeUUID source = bde_member.bdeUUID target"
    and "\<not> (array_includes (permissions source) (P_ALL Permissions)
            \<and> \<not> array_includes (permissions target) (P_ALL Permissions))"
  shows "(canManagePermissions Permissions source target \<longleftrightarrow>
            findPermissionLevel source > findPermissionLevel target)
         \<and> (findPermissionLevel source = findPermissionLevel target \<longrightarrow>
              \<not> canManagePermissions Permissions source target)"
  using assms by (simp add: canManagePermissions_no_bypass)

theorem C3_strict_hierarchy_witness:
  "canManagePermissions catalog0
     (member0 ''bde-1'' [P_MANAGE_PERMISSIONS catalog0]) (member0 ''bde-1'' [P_ADD_USER catalog0])
   \<and> \<not> canManagePermissions catalog0
         (member0 ''bde-1'' [P_MANAGE_PERMISSIONS catalog0])
         (member0 ''bde-1'' [P_MANAGE_PERMISSIONS catalog0])
   \<and> findPermissionLevel (member0 ''bde-1'' [P_MANAGE_PERMISSIONS catalog0])
       > findPermissionLevel (member0 ''bde-1'' [P_ADD_USER catalog0])"
  using C3_strict_hierarchy
          [of "member0 ''bde-1'' [P_MANAGE_PERMISSIONS catalog0]" catalog0
              "member0 ''bde-1'' [P_ADD_USER catalog0]"]
        C3_strict_hierarchy
          [of "member0 ''bde-1'' [P_MANAGE_PERMISSIONS catalog0]" catalog0
              "member0 ''bde-1'' [P_MANAGE_PERMISSIONS catalog0]"]
  by (simp add: array_includes_def findPermissionLevel_def member0_def catalog0_def)

section \<open>Authentication\<close>

lemma authenticated_no_token:
  "authenticated W token = Some claims \<Longrightarrow> \<not> no_token token"
  by (auto simp add: authenticated_def no_token_def split: option.splits if_splits)

lemma authenticated_the:
  "authenticated W token = Some claims \<Longrightarrow> verifyToken W (the token) = Some claims"
  by (auto simp add: authenticated_def split: option.splits if_splits)

lemma authenticated_alt:
  "authenticated W token = (if \<not> no_token token then verifyToken W (the token) else None)"
  by (auto simp add: authenticated_def no_token_def split: option.splits)

section \<open>Booking window\<close>

text \<open>
  C9: for every event and every instant \<open>now\<close>, \<open>canBookNow\<close> is true unless
  \<open>bookingStart\<close> is set and strictly after \<open>now\<close>, or \<open>bookingEnd\<close> is set and strictly
  before \<open>now\<close>. With neither bound set it is true, and an absent bound puts no
  restriction on its side.
\<close>

theorem C9_canBookNow:
  "(canBookNow now ev \<longleftrightarrow>
      \<not> (\<exists>start. event.bookingStart ev = Some start \<and> now < start)
      \<and> \<not> (\<exists>stop. event.bookingEnd ev = Some stop \<and> stop < now))
   \<and> (event.bookingStart ev = None \<and> event.bookingEnd ev = None \<longrightarrow> canBookNow now ev)
   \<and> (event.bookingStart ev = None \<longrightarrow>
        (canBookNow now ev \<longleftrightarrow> \<not> (\<exists>stop. event.bookingEnd ev = Some stop \<and> stop < now)))
   \<and> (event.bookingEnd ev = None \<longrightarrow>
        (canBookNow now ev \<longleftrightarrow> \<not> (\<exists>start. event.bookingStart ev = Some start \<and> now < start)))"
  by (simp add: canBookNow_def split: option.splits)

theorem C9_canBookNow_witness:
  "\<not> canBookNow 5000 (public0 \<lparr> event.bookingStart := Some (5000 + 3600000) \<rparr>)
   \<and> canBookNow 5000 (public0 \<lparr> event.bookingStart := Some (5000 - 3600000),
                                  event.bookingEnd := Some (5000 + 3600000) \<rparr>)
   \<and> canBookNow 5000 public0
   \<and> event.bookingStart public0 = None \<and> event.bookingEnd public0 = None"
  using C9_canBookNow [of 5000 "public0 \<lparr> event.bookingStart := Some (5000 + 3600000) \<rparr>"]
        C9_canBookNow [of 5000 "public0 \<lparr> event.bookingStart := Some (5000 - 3600000),
                                           event.bookingEnd := Some (5000 + 3600000) \<rparr>"]
        C9_canBookNow [of 5000 public0]
  by (simp add: public0_def)

section \<open>Listing the bookings of an event\<close>

text \<open>
  C5: for every authenticated caller and every event identifier, \<open>findEventBookings\<close>
  answers 200 with exactly the list the bookings service reports for the event; the list
  is not filtered, whatever \<open>canManageBooking\<close> answers for its elements.
\<close>

theorem C5_findEventBookings:
  assumes "authenticated W token = Some claims"
    and "bookings_findBookingsForEvent W event_uuid = Inr bookings"
  shows "snd (BookingsController_findEventBookings W event_uuid token) = ok (BookingsOut bookings)
         \<and> status (snd (BookingsController_findEventBookings W event_uuid token)) = 200
         \<and> (\<forall>f. snd (BookingsController_findEventBookings (W\<lparr> canManageBooking := f \<rparr>)
                        event_uuid token) = ok (BookingsOut bookings))"
  using assms authenticated_no_token [OF assms(1)] authenticated_the [OF assms(1)]
  by (simp add: BookingsController_findEventBookings_def ok_def Let_def)

theorem C5_findEventBookings_witness:
  "snd (BookingsController_findEventBookings world0 ''e-1'' (Some ''token-user''))
     = ok (BookingsOut [booked0 ''u-1'', booked0 ''u-2''])
   \<and> authenticated world0 (Some ''token-user'') = Some user0
   \<and> \<not> canManageBooking world0 user0
         \<lparr> booking_target.userUUID = booking_event.userUUID (booked0 ''u-2''),
           booking_target.bdeUUID = event.bdeUUID (booked0 ''u-2'') \<rparr>"
  using C5_findEventBookings
          [of world0 "Some ''token-user''" user0 "''e-1''" "[booked0 ''u-1'', booked0 ''u-2'']"]
  by (simp add: authenticated_def world0_def user0_def booked0_def)

section \<open>Listing the events\<close>

text \<open>
  C7: for every list of events the events service returns and every caller, \<open>findAll\<close>
  answers 200 with exactly the events of the list, in order, that are not drafts or for
  which the caller is authenticated and \<open>canManageEvents(claims, event.bdeUUID)\<close> holds.
\<close>

theorem C7_findAll:
  assumes "events_findAll W = Inr events"
  shows "\<exists>out. snd (EventsController_findAll W token) = ok (EventsOut out)
           \<and> status (snd (EventsController_findAll W token)) = 200
           \<and> out = filter (\<lambda>ev. \<not> event.isDraft ev
                               \<or> (\<exists>c. authenticated W token = Some c
                                       \<and> canManageEvents W c (event.bdeUUID ev))) events
           \<and> (\<forall>ev \<in> set events. event.isDraft ev \<and> authenticated W token = None
                  \<longrightarrow> ev \<notin> set out)
           \<and> (\<forall>ev \<in> set events. \<forall>c. authenticated W token = Some c
                  \<and> canManageEvents W c (event.bdeUUID ev) \<longrightarrow> ev \<in> set out)"
proof -
  let ?shown = "\<lambda>ev. \<not> event.isDraft ev
                  \<or> (\<exists>c. authenticated W token = Some c \<and> canManageEvents W c (event.bdeUUID ev))"
  have same: "(case authenticated W token of None \<Rightarrow> False
               | Some c \<Rightarrow> canManageEvents W c (event.bdeUUID ev))
              \<longleftrightarrow> (\<exists>c. authenticated W token = Some c \<and> canManageEvents W c (event.bdeUUID ev))"
    for ev :: event
    by (cases "authenticated W token") simp_all
  have "snd (EventsController_findAll W token) = ok (EventsOut (filter ?shown events))"
    using assms
    by (simp add: EventsController_findAll_def Let_def authenticated_alt [symmetric] same)
  then show ?thesis by (auto simp add: ok_def)
qed

theorem C7_findAll_witness:
  "snd (EventsController_findAll world0 None) = ok (EventsOut [public0])
   \<and> snd (EventsController_findAll world0 (Some ''token-user'')) = ok (EventsOut [public0])
   \<and> snd (EventsController_findAll world0 (Some ''token-admin'')) = ok (EventsOut [public0, draft0])
   \<and> events_findAll world0 = Inr [public0, draft0]
   \<and> event.isDraft draft0"
  using C7_findAll [of world0 "[public0, draft0]" None]
        C7_findAll [of world0 "[public0, draft0]" "Some ''token-user''"]
        C7_findAll [of world0 "[public0, draft0]" "Some ''token-admin''"]
  by (simp add: authenticated_def world0_def public0_def draft0_def admin0_def user0_def ok_def)

section \<open>Creating a booking\<close>

lemma BookingsController_create_authorized:
  assumes auth: "authenticated W token = Some claims"
    and valid: "BOOKING_VALIDATOR W (merge_body body user_uuid event_uuid) = Inr v"
    and found: "events_findByUUID W (event v) = Inr ev"
    and granted: "canManageBooking W claims
                    \<lparr> booking_target.userUUID = user v,
                      booking_target.bdeUUID = event.bdeUUID ev \<rparr>"
    and forced: "force v = Some True"
  shows "BookingsController_create W event_uuid user_uuid body token =
           (let b = \<lparr> booking.eventUUID = event v, booking.userUUID = user v \<rparr>;
                c2 = [VerifyToken (the token), EventsFindByUUID (event v)] in
            if \<not> canManageEvents W claims (event.bdeUUID ev)
            then (c2, forbidden ''You do not have permission to force booking.'')
            else (case bookings_create W b of
                    Inr b' \<Rightarrow> (c2 @ [BookingsCreate b], created (BookingOut b'))
                  | Inl e \<Rightarrow>
                      if e = BookingsErrorType.EVENT_NOT_EXISTS
                      then (c2 @ [BookingsCreate b], badRequest ''Specified bde UUID is invalid.'')
                      else if e = USER_NOT_EXISTS
                      then (c2 @ [BookingsCreate b], badRequest ''Specified user UUID is invalid.'')
                      else if e = BOOKING_ALREADY_EXISTS
                      then (c2 @ [BookingsCreate b], badRequest ''This booking already exists.'')
                      else (c2 @ [BookingsCreate b, LoggingError (BookingsError e)],
                            internalServerError
                              ''Unable to create booking. Contact an adminstrator or retry later.'')))"
  using valid found granted forced authenticated_no_token [OF auth] authenticated_the [OF auth]
  by (simp add: BookingsController_create_def Let_def truthy_bool_def split: sum.splits)

text \<open>
  C6: in \<open>create\<close> with an accepted token, a body the validator accepts, an existing event
  and \<open>canManageBooking\<close> granted, when \<open>force\<close> is true: without
  \<open>canManageEvents(claims, event.bdeUUID)\<close> the result is 403 and no booking is created;
  with it the clock is not read (\<open>canBookNow\<close> is not consulted) and the booking is handed
  to the bookings service whatever the booking window, the response being 201 with the
  created booking when the service accepts it, and never 403.
\<close>

theorem C6_forced_booking:
  assumes "authenticated W token = Some claims"
    and "BOOKING_VALIDATOR W (merge_body body user_uuid event_uuid) = Inr v"
    and "events_findByUUID W (event v) = Inr ev"
    and "canManageBooking W claims
           \<lparr> booking_target.userUUID = user v, booking_target.bdeUUID = event.bdeUUID ev \<rparr>"
    and "force v = Some True"
  shows "(\<not> canManageEvents W claims (event.bdeUUID ev) \<longrightarrow>
            snd (BookingsController_create W event_uuid user_uuid body token)
              = forbidden ''You do not have permission to force booking.''
            \<and> status (snd (BookingsController_create W event_uuid user_uuid body token)) = 403
            \<and> (\<forall>b. BookingsCreate b
                   \<notin> set (fst (BookingsController_create W event_uuid user_uuid body token))))
         \<and> (canManageEvents W claims (event.bdeUUID ev) \<longrightarrow>
              DateTimeLocal \<notin> set (fst (BookingsController_create W event_uuid user_uuid body token))
              \<and> BookingsCreate \<lparr> booking.eventUUID = event v, booking.userUUID = user v \<rparr>
                  \<in> set (fst (BookingsController_create W event_uuid user_uuid body token))
              \<and> status (snd (BookingsController_create W event_uuid user_uuid body token)) \<noteq> 403
              \<and> (\<forall>b'. bookings_create W \<lparr> booking.eventUUID = event v, booking.userUUID = user v \<rparr>
                         = Inr b'
                    \<longrightarrow> snd (BookingsController_create W event_uuid user_uuid body token)
                          = created (BookingOut b')))"
  by (simp add: BookingsController_create_authorized [OF assms] Let_def forbidden_def
      badRequest_def created_def internalServerError_def split: sum.splits)

theorem C6_forced_booking_witness:
  "status (snd (BookingsController_create world0 ''e-2'' ''u-1''
                  (Some [''force'' \<mapsto> JBool True]) (Some ''token-user''))) = 403
   \<and> snd (BookingsController_create world0 ''e-2'' ''u-1''
            (Some [''force'' \<mapsto> JBool True]) (Some ''token-admin''))
       = created (BookingOut \<lparr> booking.eventUUID = ''e-2'', booking.userUUID = ''u-1'' \<rparr>)
   \<and> \<not> canBookNow (DateTime_local world0) draft0
   \<and> \<not> canManageEvents world0 user0 (event.bdeUUID draft0)
   \<and> canManageEvents world0 admin0 (event.bdeUUID draft0)"
  using C6_forced_booking
          [of world0 "Some ''token-user''" user0 "Some [''force'' \<mapsto> JBool True]" "''u-1''" "''e-2''"
              "\<lparr> user = ''u-1'', event = ''e-2'', force = Some True \<rparr>" draft0]
        C6_forced_booking
          [of world0 "Some ''token-admin''" admin0 "Some [''force'' \<mapsto> JBool True]" "''u-1''" "''e-2''"
              "\<lparr> user = ''u-1'', event = ''e-2'', force = Some True \<rparr>" draft0]
  by (simp add: authenticated_def world0_def user0_def admin0_def draft0_def merge_body_def
      booking_validator0_def json_string_def json_bool_def canBookNow_def forbidden_def)

section \<open>Creating an event\<close>

lemma areBookingDatesWellOrdered_window:
  "areBookingDatesWellOrdered ev \<longleftrightarrow> booking_window_ordered ev"
  by (auto simp add: areBookingDatesWellOrdered_def booking_window_ordered_def
      split: option.splits)

lemma assignDates_both:
  assumes "event_body_request.bookingStart v = Some start" and "start \<noteq> []"
    and "event_body_request.bookingEnd v = Some stop" and "stop \<noteq> []"
  shows "event.bookingStart (assignDates W ev v) = Some (fromISO W start)
         \<and> event.bookingEnd (assignDates W ev v) = Some (fromISO W stop)"
  using assms by (simp add: assignDates_def truthy_string_def Let_def)

lemma EventsController_create_calls:
  assumes "EventsCreate ev \<in> set (fst (EventsController_create W body token))"
  shows "areBookingDatesWellOrdered ev"
  using assms
  by (auto simp add: EventsController_create_def Let_def
      split: if_splits option.splits sum.splits)

text \<open>
  C8: in \<open>create\<close> with an accepted token and a body the validator accepts in which
  \<open>bookingStart\<close> and \<open>bookingEnd\<close> are both given (present and not the empty string,
  which is what \<open>assignDates\<close> tests) and the end is not after the start, the result is 400
  and the events service is not called, whatever \<open>canManageEvents\<close> answers for the
  caller: the order of the dates is checked before the permission. Hence every event
  handed to the events service has its booking dates, when both are set, in strict order.
\<close>

theorem C8_create_date_order:
  "(authenticated W token = Some claims
      \<and> EVENT_VALIDATOR W body = Inr v
      \<and> event_body_request.bookingStart v = Some start \<and> start \<noteq> []
      \<and> event_body_request.bookingEnd v = Some stop \<and> stop \<noteq> []
      \<and> fromISO W stop \<le> fromISO W start
    \<longrightarrow> snd (EventsController_create W body token)
          = badRequest ''Booking end date must come (strictly) after booking beginning date.''
        \<and> status (snd (EventsController_create W body token)) = 400
        \<and> (\<forall>f. status (snd (EventsController_create (W\<lparr> canManageEvents := f \<rparr>) body token))
                 = 400)
        \<and> (\<forall>ev. EventsCreate ev \<notin> set (fst (EventsController_create W body token))))
   \<and> (\<forall>ev. EventsCreate ev \<in> set (fst (EventsController_create W body token))
         \<longrightarrow> booking_window_ordered ev)"
proof (intro conjI impI allI)
  assume a: "authenticated W token = Some claims
      \<and> EVENT_VALIDATOR W body = Inr v
      \<and> event_body_request.bookingStart v = Some start \<and> start \<noteq> []
      \<and> event_body_request.bookingEnd v = Some stop \<and> stop \<noteq> []
      \<and> fromISO W stop \<le> fromISO W start"
  then have auth: "authenticated W token = Some claims" by simp
  have bad: "\<not> areBookingDatesWellOrdered (assignDates W' (new_event (uuid_v4 W') v) v)"
    if "fromISO W' = fromISO W" for W'
    using a that assignDates_both [of v start stop W' "new_event (uuid_v4 W') v"]
    by (simp add: areBookingDatesWellOrdered_def)
  have r: "EventsController_create W body token
             = ([VerifyToken (the token)], badRequest
                  ''Booking end date must come (strictly) after booking beginning date.'')"
    using a bad [of W] authenticated_no_token [OF auth] authenticated_the [OF auth]
    by (simp add: EventsController_create_def Let_def)
  show "snd (EventsController_create W body token)
          = badRequest ''Booking end date must come (strictly) after booking beginning date.''"
    by (simp add: r)
  show "status (snd (EventsController_create W body token)) = 400"
    by (simp add: r badRequest_def)
  show "EventsCreate ev \<notin> set (fst (EventsController_create W body token))" for ev
    by (simp add: r)
  show "status (snd (EventsController_create (W\<lparr> canManageEvents := f \<rparr>) body token)) = 400"
    for f
    using a bad [of "W\<lparr> canManageEvents := f \<rparr>"]
      authenticated_no_token [OF auth] authenticated_the [OF auth]
    by (simp add: EventsController_create_def Let_def badRequest_def)
next
  fix ev
  assume "EventsCreate ev \<in> set (fst (EventsController_create W body token))"
  then show "booking_window_ordered ev"
    using EventsController_create_calls areBookingDatesWellOrdered_window by blast
qed

lemma EventsController_create_example:
  "EventsCreate (public0 \<lparr> event.eventUUID := ''e-3'', event.bookingStart := Some 1000,
                            event.bookingEnd := Some 2000 \<rparr>)
     \<in> set (fst (EventsController_create world0
          (event_body0 ''bde-1'' ''1970-01-01T00:00:01Z'' ''1970-01-01T00:00:02Z'')
          (Some ''token-admin'')))"
  by (simp add: EventsController_create_def world0_def admin0_def public0_def event_body0_def
      event_validator0_def json_string_def json_bool_def no_token_def new_event_def
      assignDates_def truthy_string_def areBookingDatesWellOrdered_def Let_def)

theorem C8_create_date_order_witness:
  "status (snd (EventsController_create world0
      (event_body0 ''bde-1'' ''1970-01-01T00:00:02Z'' ''1970-01-01T00:00:01Z'')
      (Some ''token-admin''))) = 400
   \<and> status (snd (EventsController_create world0
      (event_body0 ''bde-1'' ''1970-01-01T00:00:02Z'' ''1970-01-01T00:00:02Z'')
      (Some ''token-user''))) = 400
   \<and> canManageEvents world0 admin0 ''bde-1''
   \<and> fromISO world0 ''1970-01-01T00:00:01Z'' \<le> fromISO world0 ''1970-01-01T00:00:02Z''
   \<and> EventsCreate (public0 \<lparr> event.eventUUID := ''e-3'', event.bookingStart := Some 1000,
                              event.bookingEnd := Some 2000 \<rparr>)
       \<in> set (fst (EventsController_create world0
            (event_body0 ''bde-1'' ''1970-01-01T00:00:01Z'' ''1970-01-01T00:00:02Z'')
            (Some ''token-admin'')))
   \<and> booking_window_ordered (public0 \<lparr> event.eventUUID := ''e-3'',
         event.bookingStart := Some 1000, event.bookingEnd := Some 2000 \<rparr>)"
  using C8_create_date_order
          [of world0 "Some ''token-admin''" admin0
              "event_body0 ''bde-1'' ''1970-01-01T00:00:02Z'' ''1970-01-01T00:00:01Z''"
              "\<lparr> name = ''gala'', bde = ''bde-1'', event_body_request.isDraft = False,
                 event_body_request.bookingStart = Some ''1970-01-01T00:00:02Z'',
                 event_body_request.bookingEnd = Some ''1970-01-01T00:00:01Z'',
                 event_body_request.eventDate = None \<rparr>"
              "''1970-01-01T00:00:02Z''" "''1970-01-01T00:00:01Z''"]
        C8_create_date_order
          [of world0 "Some ''token-user''" user0
              "event_body0 ''bde-1'' ''1970-01-01T00:00:02Z'' ''1970-01-01T00:00:02Z''"
              "\<lparr> name = ''gala'', bde = ''bde-1'', event_body_request.isDraft = False,
                 event_body_request.bookingStart = Some ''1970-01-01T00:00:02Z'',
                 event_body_request.bookingEnd = Some ''1970-01-01T00:00:02Z'',
                 event_body_request.eventDate = None \<rparr>"
              "''1970-01-01T00:00:02Z''" "''1970-01-01T00:00:02Z''"]
        C8_create_date_order
          [of world0 "Some ''token-admin''" admin0
              "event_body0 ''bde-1'' ''1970-01-01T00:00:01Z'' ''1970-01-01T00:00:02Z''"]
        EventsController_create_example
  by (simp add: authenticated_def world0_def user0_def admin0_def event_body0_def
      event_validator0_def json_string_def json_bool_def badRequest_def)

section \<open>Patching an event\<close>

text \<open>
  C10, as stated: with an accepted token, a body the validator accepts and an existing
  stored event, the result is 403 unless the permissions hold. The order of the booking
  dates is checked before the stored event is fetched and before any permission: a body
  whose \<open>bookingEnd\<close> is before its \<open>bookingStart\<close> gets 400 from a caller who may not
  manage the events of the stored event's BDE.
\<close>

theorem C10_patchEvent_counterexample:
  "authenticated world0 (Some ''token-user'') = Some user0
   \<and> \<not> isl (EVENT_VALIDATOR world0
              (event_body0 ''bde-1'' ''1970-01-01T00:00:02Z'' ''1970-01-01T00:00:01Z''))
   \<and> events_findByUUID world0 ''e-1'' = Inr public0
   \<and> \<not> canManageEvents world0 user0 (event.bdeUUID public0)
   \<and> status (snd (EventsController_patchEvent world0 ''e-1''
         (event_body0 ''bde-1'' ''1970-01-01T00:00:02Z'' ''1970-01-01T00:00:01Z'')
         (Some ''token-user''))) = 400"
  by (simp add: EventsController_patchEvent_def authenticated_def world0_def user0_def
      public0_def event_body0_def event_validator0_def json_string_def json_bool_def
      no_token_def new_event_def assignDates_def truthy_string_def
      areBookingDatesWellOrdered_def badRequest_def Let_def)

lemma EventsController_patchEvent_update:
  assumes "EventsUpdate e \<in> set (fst (EventsController_patchEvent W event_uuid body token))"
  shows "\<exists>c stored. authenticated W token = Some c
           \<and> events_findByUUID W event_uuid = Inr stored
           \<and> canManageEvents W c (event.bdeUUID stored)
           \<and> canManageEvents W c (event.bdeUUID e)"
proof -
  have uuid: "event.eventUUID (assignDates W (new_event event_uuid v) v) = event_uuid" for v
    by (simp add: assignDates_def new_event_def Let_def)
  show ?thesis
    using assms
    by (auto simp add: EventsController_patchEvent_def Let_def uuid authenticated_alt
        split: if_splits option.splits sum.splits)
qed

lemma EventsController_patchEvent_example:
  "EventsUpdate (public0 \<lparr> event.bdeUUID := ''bde-2'', event.bookingStart := Some 1000,
                            event.bookingEnd := Some 2000 \<rparr>)
     \<in> set (fst (EventsController_patchEvent world1 ''e-1''
          (event_body0 ''bde-2'' ''1970-01-01T00:00:01Z'' ''1970-01-01T00:00:02Z'')
          (Some ''token-admin'')))"
  by (simp add: EventsController_patchEvent_def world1_def world0_def admin0_def public0_def
      event_body0_def event_validator0_def json_string_def json_bool_def no_token_def
      new_event_def assignDates_def truthy_string_def areBookingDatesWellOrdered_def Let_def)

text \<open>
  C10, amended: in \<open>patchEvent\<close> with an accepted token, a body the validator accepts
  whose booking dates are well ordered (\<open>areBookingDatesWellOrdered\<close> holds of the event
  built from it), and an existing stored event, the result is 403 unless
  \<open>canManageEvents(claims, storedEvent.bdeUUID)\<close> holds and, whenever the body's \<open>bde\<close>
  differs from the stored event's \<open>bdeUUID\<close>, \<open>canManageEvents(claims, newBdeUUID)\<close> holds
  as well. When one of them fails the events service is not asked to update anything; when
  both hold the result is not 403 and the update is handed to the service. So moving an
  event to another BDE requires the permission to manage events on both the old and the new
  BDE: on every request, the events service is asked to update an event only for a caller
  who is authenticated and may manage the events of the stored event's BDE and of the BDE
  the updated event is given.
\<close>

theorem C10_patchEvent_permissions:
  "(authenticated W token = Some claims
      \<and> EVENT_VALIDATOR W body = Inr v
      \<and> areBookingDatesWellOrdered (assignDates W (new_event event_uuid v) v)
      \<and> events_findByUUID W event_uuid = Inr stored
    \<longrightarrow> (status (snd (EventsController_patchEvent W event_uuid body token)) = 403 \<longleftrightarrow>
           \<not> (canManageEvents W claims (event.bdeUUID stored)
               \<and> (bde v \<noteq> event.bdeUUID stored \<longrightarrow> canManageEvents W claims (bde v))))
        \<and> (\<not> (canManageEvents W claims (event.bdeUUID stored)
               \<and> (bde v \<noteq> event.bdeUUID stored \<longrightarrow> canManageEvents W claims (bde v)))
            \<longrightarrow> (\<forall>e. EventsUpdate e
                       \<notin> set (fst (EventsController_patchEvent W event_uuid body token))))
        \<and> (canManageEvents W claims (event.bdeUUID stored)
               \<and> (bde v \<noteq> event.bdeUUID stored \<longrightarrow> canManageEvents W claims (bde v))
            \<longrightarrow> EventsUpdate (assignDates W (new_event event_uuid v) v)
                  \<in> set (fst (EventsController_patchEvent W event_uuid body token))
                \<and> event.bdeUUID (assignDates W (new_event event_uuid v) v) = bde v))
   \<and> (\<forall>e. EventsUpdate e \<in> set (fst (EventsController_patchEvent W event_uuid body token))
         \<longrightarrow> (\<exists>c stored. authenticated W token = Some c
                  \<and> events_findByUUID W event_uuid = Inr stored
                  \<and> canManageEvents W c (event.bdeUUID stored)
                  \<and> canManageEvents W c (event.bdeUUID e)))"
proof (intro conjI impI allI)
  let ?ev = "assignDates W (new_event event_uuid v) v"
  let ?r = "EventsController_patchEvent W event_uuid body token"
  let ?P = "canManageEvents W claims (event.bdeUUID stored)
            \<and> (bde v \<noteq> event.bdeUUID stored \<longrightarrow> canManageEvents W claims (bde v))"
  have uuid: "event.eventUUID ?ev = event_uuid" and bde: "event.bdeUUID ?ev = bde v"
    by (simp_all add: assignDates_def new_event_def Let_def)
  assume a: "authenticated W token = Some claims
      \<and> EVENT_VALIDATOR W body = Inr v
      \<and> areBookingDatesWellOrdered ?ev
      \<and> events_findByUUID W event_uuid = Inr stored"
  then have auth: "authenticated W token = Some claims" by simp
  note pre = authenticated_no_token [OF auth] authenticated_the [OF auth]
  have denied: "?r = ([VerifyToken (the token), EventsFindByUUID event_uuid],
                      forbidden ''You do not have the permission to patch this event.'')"
    if "\<not> ?P"
    using a that uuid bde pre
    by (auto simp add: EventsController_patchEvent_def Let_def)
  have granted: "EventsUpdate ?ev \<in> set (fst ?r) \<and> status (snd ?r) \<noteq> 403" if "?P"
    using a that uuid bde pre
    by (auto simp add: EventsController_patchEvent_def Let_def ok_def notFound_def
        badRequest_def internalServerError_def split: sum.splits)
  show "status (snd ?r) = 403 \<longleftrightarrow> \<not> ?P"
    using denied granted by (auto simp add: forbidden_def)
  show "EventsUpdate e \<notin> set (fst ?r)" if "\<not> ?P" for e
    using denied [OF that] by simp
  show "EventsUpdate ?ev \<in> set (fst ?r)" if "?P"
    using granted [OF that] by simp
  show "event.bdeUUID ?ev = bde v" by (rule bde)
next
  fix e
  assume "EventsUpdate e \<in> set (fst (EventsController_patchEvent W event_uuid body token))"
  then show "\<exists>c stored. authenticated W token = Some c
                  \<and> events_findByUUID W event_uuid = Inr stored
                  \<and> canManageEvents W c (event.bdeUUID stored)
                  \<and> canManageEvents W c (event.bdeUUID e)"
    by (rule EventsController_patchEvent_update)
qed

theorem C10_patchEvent_permissions_witness:
  "status (snd (EventsController_patchEvent world0 ''e-1''
      (event_body0 ''bde-1'' ''1970-01-01T00:00:01Z'' ''1970-01-01T00:00:02Z'')
      (Some ''token-user''))) = 403
   \<and> status (snd (EventsController_patchEvent world0 ''e-1''
      (event_body0 ''bde-2'' ''1970-01-01T00:00:01Z'' ''1970-01-01T00:00:02Z'')
      (Some ''token-admin''))) = 403
   \<and> status (snd (EventsController_patchEvent world1 ''e-1''
      (event_body0 ''bde-2'' ''1970-01-01T00:00:01Z'' ''1970-01-01T00:00:02Z'')
      (Some ''token-admin''))) \<noteq> 403
   \<and> EventsUpdate (public0 \<lparr> event.bdeUUID := ''bde-2'', event.bookingStart := Some 1000,
                              event.bookingEnd := Some 2000 \<rparr>)
       \<in> set (fst (EventsController_patchEvent world1 ''e-1''
            (event_body0 ''bde-2'' ''1970-01-01T00:00:01Z'' ''1970-01-01T00:00:02Z'')
            (Some ''token-admin'')))
   \<and> (\<exists>c stored. authenticated world1 (Some ''token-admin'') = Some c
          \<and> events_findByUUID world1 ''e-1'' = Inr stored
          \<and> canManageEvents world1 c (event.bdeUUID stored)
          \<and> canManageEvents world1 c ''bde-2'')
   \<and> canManageEvents world0 admin0 (event.bdeUUID public0)
   \<and> \<not> canManageEvents world0 admin0 ''bde-2''
   \<and> \<not> canManageEvents world0 user0 (event.bdeUUID public0)
   \<and> canManageEvents world1 admin0 (event.bdeUUID public0)
   \<and> canManageEvents world1 admin0 ''bde-2''"
  using C10_patchEvent_permissions
          [of world0 "Some ''token-user''" user0
              "event_body0 ''bde-1'' ''1970-01-01T00:00:01Z'' ''1970-01-01T00:00:02Z''"
              "\<lparr> name = ''gala'', bde = ''bde-1'', event_body_request.isDraft = False,
                 event_body_request.bookingStart = Some ''1970-01-01T00:00:01Z'',
                 event_body_request.bookingEnd = Some ''1970-01-01T00:00:02Z'',
                 event_body_request.eventDate = None \<rparr>" "''e-1''" public0]
        C10_patchEvent_permissions
          [of world0 "Some ''token-admin''" admin0
              "event_body0 ''bde-2'' ''1970-01-01T00:00:01Z'' ''1970-01-01T00:00:02Z''"
              "\<lparr> name = ''gala'', bde = ''bde-2'', event_body_request.isDraft = False,
                 event_body_request.bookingStart = Some ''1970-01-01T00:00:01Z'',
                 event_body_request.bookingEnd = Some ''1970-01-01T00:00:02Z'',
                 event_body_request.eventDate = None \<rparr>" "''e-1''" public0]
        C10_patchEvent_permissions
          [of world1 "Some ''token-admin''" admin0
              "event_body0 ''bde-2'' ''1970-01-01T00:00:01Z'' ''1970-01-01T00:00:02Z''"
              "\<lparr> name = ''gala'', bde = ''bde-2'', event_body_request.isDraft = False,
                 event_body_request.bookingStart = Some ''1970-01-01T00:00:01Z'',
                 event_body_request.bookingEnd = Some ''1970-01-01T00:00:02Z'',
                 event_body_request.eventDate = None \<rparr>" "''e-1''" public0]
        EventsController_patchEvent_example
  by (simp add: authenticated_def world1_def world0_def user0_def admin0_def public0_def
      event_body0_def event_validator0_def json_string_def json_bool_def new_event_def
      assignDates_def truthy_string_def areBookingDatesWellOrdered_def Let_def)

end
